theory Spec2Isabelle
  imports Main "HOL-Library.Word"
begin

section \<open>The Steam Market API client (examples/python\_client.py)\<close>

text \<open>
  The client class \<^verbatim>\<open>SteamMarketApiClient\<close> turns each method call into one
  \<^verbatim>\<open>requests.get\<close> and hands back either the decoded JSON body or a failure
  dictionary. The model keeps the methods' names and their order of checks. What the
  methods do besides returning a value is written out: the GETs issued are appended to a
  log, an exception that leaves a method is the \<open>Inl\<close> side of its result.
\<close>

subsection \<open>Strings, bytes, integers\<close>

text \<open>
  A Python \<^verbatim>\<open>str\<close> is a sequence of Unicode code points, a \<^verbatim>\<open>bytes\<close> a sequence of
  octets. \<open>lit\<close> reads an ASCII literal of the source as code points.
\<close>

type_synonym str = "nat list"
type_synonym byte = "8 word"

definition lit :: "string \<Rightarrow> str" where
  "lit s = map of_char s"

text \<open>\<^verbatim>\<open>str.rstrip(chars)\<close>: drop every trailing character that is in \<open>chars\<close>.\<close>

definition rstrip :: "str \<Rightarrow> str \<Rightarrow> str" where
  "rstrip s chars = rev (dropWhile (\<lambda>c. c \<in> set chars) (rev s))"

text \<open>\<^verbatim>\<open>str(n)\<close> on an integer, as an f-string field formats it: decimal, \<open>-\<close> for negatives.\<close>

fun str_nat :: "nat \<Rightarrow> str" where
  "str_nat n = (if n < 10 then [48 + n] else str_nat (n div 10) @ [48 + n mod 10])"

declare str_nat.simps [simp del]

definition str_int :: "int \<Rightarrow> str" where
  "str_int i = (if i < 0 then 45 # str_nat (nat (- i)) else str_nat (nat i))"

subsection \<open>JSON values, exceptions, the transport\<close>

text \<open>
  What \<^verbatim>\<open>response.json()\<close> yields and what the methods return: Python's \<^verbatim>\<open>dict\<close>,
  \<^verbatim>\<open>list\<close>, \<^verbatim>\<open>str\<close>, \<^verbatim>\<open>int\<close>, \<^verbatim>\<open>float\<close> (significand and binary exponent),
  \<^verbatim>\<open>bool\<close> and \<^verbatim>\<open>None\<close>. A dictionary keeps its items in insertion order.
\<close>

datatype json =
    JNone
  | JBool bool
  | JInt int
  | JFloat int int
  | JStr str
  | JList "json list"
  | JDict "(str \<times> json) list"

text \<open>
  Exceptions carry their class and the text \<^verbatim>\<open>str(e)\<close>. The clause
  \<^verbatim>\<open>except requests.exceptions.RequestException\<close> catches the classes derived from
  \<^verbatim>\<open>RequestException\<close>: in the requests library these include \<^verbatim>\<open>ConnectionError\<close>,
  \<^verbatim>\<open>Timeout\<close>, \<^verbatim>\<open>HTTPError\<close>, \<^verbatim>\<open>TooManyRedirects\<close> and (requests 2.27 and later)
  \<^verbatim>\<open>requests.exceptions.JSONDecodeError\<close>, which is what \<^verbatim>\<open>Response.json()\<close> raises on
  a body that is not JSON. \<^verbatim>\<open>UnicodeEncodeError\<close> and whatever else may be raised
  (\<open>OtherException\<close>) are not derived from it.
\<close>

datatype exc_class =
    ConnectionError
  | Timeout
  | TooManyRedirects
  | HTTPError
  | JSONDecodeError
  | UnicodeEncodeError
  | OtherException

datatype exception = Exc exc_class str

fun exc_type :: "exception \<Rightarrow> exc_class" where
  "exc_type (Exc c m) = c"

fun exc_str :: "exception \<Rightarrow> str" where
  "exc_str (Exc c m) = m"

fun is_RequestException :: "exc_class \<Rightarrow> bool" where
  "is_RequestException ConnectionError = True"
| "is_RequestException Timeout = True"
| "is_RequestException TooManyRedirects = True"
| "is_RequestException HTTPError = True"
| "is_RequestException JSONDecodeError = True"
| "is_RequestException UnicodeEncodeError = False"
| "is_RequestException OtherException = False"

text \<open>The values the client puts into a \<^verbatim>\<open>params\<close> dictionary are strings and integers.\<close>

datatype param_value = PStr str | PInt int

type_synonym params = "(str \<times> param_value) list"

text \<open>The arguments of one \<^verbatim>\<open>requests.get(url, params=params, timeout=30)\<close>.\<close>

record http_request =
  url :: str
  params :: "params option"
  timeout :: int

text \<open>
  Of a \<^verbatim>\<open>Response\<close> the client reads the status (through \<^verbatim>\<open>raise_for_status\<close>) and the
  decoded body (through \<^verbatim>\<open>json()\<close>). \<open>json_body\<close> is the outcome of decoding the body:
  \<open>Inr v\<close> when it is the JSON text of \<open>v\<close>, \<open>Inl m\<close> when it is not JSON and the decoder
  complains with the text \<open>m\<close>. \<open>reason\<close> and \<open>resp_url\<close> appear in the text of the
  \<^verbatim>\<open>HTTPError\<close>.
\<close>

record http_response =
  status_code :: int
  reason :: str
  resp_url :: str
  json_body :: "str + json"

text \<open>
  The network and the server are not part of the program: a transport says, for each GET,
  whether \<^verbatim>\<open>requests.get\<close> raises or which response it returns.
\<close>

datatype outcome = Raises exception | Responds http_response

type_synonym transport = "http_request \<Rightarrow> outcome"

text \<open>
  \<^verbatim>\<open>Response.raise_for_status()\<close> of the requests library: an \<^verbatim>\<open>HTTPError\<close> for a status
  from 400 to 599, nothing otherwise.
\<close>

definition raise_for_status :: "http_response \<Rightarrow> exception option" where
  "raise_for_status r =
     (if 400 \<le> status_code r \<and> status_code r < 500 then
        Some (Exc HTTPError (str_int (status_code r) @ lit '' Client Error: '' @ reason r
                             @ lit '' for url: '' @ resp_url r))
      else if 500 \<le> status_code r \<and> status_code r < 600 then
        Some (Exc HTTPError (str_int (status_code r) @ lit '' Server Error: '' @ reason r
                             @ lit '' for url: '' @ resp_url r))
      else None)"

text \<open>\<^verbatim>\<open>Response.json()\<close>: the decoded body, or \<^verbatim>\<open>JSONDecodeError\<close>.\<close>

definition response_json :: "http_response \<Rightarrow> exception + json" where
  "response_json r = (case json_body r of Inl m \<Rightarrow> Inl (Exc JSONDecodeError m) | Inr v \<Rightarrow> Inr v)"

subsection \<open>The client\<close>

record client =
  base_url :: str
  api_base :: str

text \<open>
  A session is the client object together with the log of the GETs issued so far. Every
  method takes the session and returns it: a method that assigned to a field of
  \<^verbatim>\<open>self\<close> would show in the \<open>self\<close> part.
\<close>

record session =
  self :: client
  sent :: "http_request list"

text \<open>\<^verbatim>\<open>__init__(self, base_url="http://localhost:8000")\<close>; \<open>None\<close> is the omitted argument.\<close>

definition init :: "str option \<Rightarrow> client" where
  "init base_url_arg =
     (let b = (case base_url_arg of None \<Rightarrow> lit ''http://localhost:8000'' | Some u \<Rightarrow> u);
          bu = rstrip b (lit ''/'')
      in \<lparr>base_url = bu, api_base = bu @ lit ''/api/v1''\<rparr>)"

text \<open>
  The body of the \<^verbatim>\<open>try\<close> block of \<^verbatim>\<open>_make_request\<close>: the GET, the status check, the
  decoding. The first exception ends it.
\<close>

definition try_body :: "transport \<Rightarrow> http_request \<Rightarrow> exception + json" where
  "try_body net rq =
     (case net rq of
        Raises e \<Rightarrow> Inl e
      | Responds response \<Rightarrow>
          (case raise_for_status response of
             Some e \<Rightarrow> Inl e
           | None \<Rightarrow> response_json response))"

definition failure :: "exception \<Rightarrow> str \<Rightarrow> json" where
  "failure e endpoint =
     JDict [(lit ''success'', JBool False),
            (lit ''error'', JStr (lit ''Request failed: '' @ exc_str e)),
            (lit ''endpoint'', JStr endpoint)]"

definition make_request ::
  "transport \<Rightarrow> str \<Rightarrow> params option \<Rightarrow> session \<Rightarrow> (exception + json) \<times> session" where
  "make_request net endpoint ps s =
     (let rq = \<lparr>url = api_base (self s) @ endpoint, params = ps, timeout = 30\<rparr>;
          s' = s\<lparr>sent := sent s @ [rq]\<rparr>
      in case try_body net rq of
           Inr v \<Rightarrow> (Inr v, s')
         | Inl e \<Rightarrow>
             if is_RequestException (exc_type e) then (Inr (failure e endpoint), s')
             else (Inl e, s'))"

subsection \<open>Percent-encoding: \<^verbatim>\<open>urllib.parse.quote\<close>\<close>

text \<open>
  \<^verbatim>\<open>str.encode('utf-8', 'strict')\<close>, one code point at a time. The surrogates
  \<open>U+D800\<close> to \<open>U+DFFF\<close>, which a Python \<^verbatim>\<open>str\<close> may hold, have no UTF-8 form:
  \<open>None\<close> stands for the \<^verbatim>\<open>UnicodeEncodeError\<close>. A \<^verbatim>\<open>str\<close> holds no code point
  above \<open>U+10FFFF\<close> (\<open>codepoints\<close>).
\<close>

definition codepoints :: "str \<Rightarrow> bool" where
  "codepoints s = list_all (\<lambda>c. c < 0x110000) s"

text \<open>The strings that have a UTF-8 form: those without a surrogate code point.\<close>

definition encodable :: "str \<Rightarrow> bool" where
  "encodable s = list_all (\<lambda>c. \<not> (0xD800 \<le> c \<and> c < 0xE000)) s"

definition utf8_encode_char :: "nat \<Rightarrow> byte list option" where
  "utf8_encode_char c =
     (if c < 0x80 then Some [of_nat c]
      else if c < 0x800 then Some [of_nat (0xC0 + c div 64), of_nat (0x80 + c mod 64)]
      else if c < 0x10000 then
        (if 0xD800 \<le> c \<and> c < 0xE000 then None
         else Some [of_nat (0xE0 + c div 4096), of_nat (0x80 + c div 64 mod 64),
                    of_nat (0x80 + c mod 64)])
      else Some [of_nat (0xF0 + c div 262144), of_nat (0x80 + c div 4096 mod 64),
                 of_nat (0x80 + c div 64 mod 64), of_nat (0x80 + c mod 64)])"

fun utf8_encode :: "str \<Rightarrow> exception + byte list" where
  "utf8_encode [] = Inr []"
| "utf8_encode (c # cs) =
     (case utf8_encode_char c of
        None \<Rightarrow> Inl (Exc UnicodeEncodeError (lit ''surrogates not allowed''))
      | Some bs \<Rightarrow> (case utf8_encode cs of Inl e \<Rightarrow> Inl e | Inr rest \<Rightarrow> Inr (bs @ rest)))"

text \<open>
  \<^verbatim>\<open>_ALWAYS_SAFE\<close> of \<^verbatim>\<open>urllib.parse\<close>, and the format \<^verbatim>\<open>'%{:02X}'\<close> of a byte that is
  not safe.
\<close>

definition always_safe :: str where
  "always_safe = lit ''ABCDEFGHIJKLMNOPQRSTUVWXYZabcdefghijklmnopqrstuvwxyz0123456789_.-~''"

definition hex_digit :: "nat \<Rightarrow> nat" where
  "hex_digit d = (if d < 10 then 48 + d else 55 + d)"

definition quoter :: "str \<Rightarrow> byte \<Rightarrow> str" where
  "quoter safe b =
     (if unat b \<in> set (always_safe @ safe) then [unat b]
      else [37, hex_digit (unat b div 16), hex_digit (unat b mod 16)])"

definition quote_from_bytes :: "byte list \<Rightarrow> str \<Rightarrow> str" where
  "quote_from_bytes bs safe = concat (map (quoter safe) bs)"

text \<open>\<^verbatim>\<open>quote(string, safe)\<close>; the client calls it with the default \<^verbatim>\<open>safe='/'\<close>.\<close>

definition quote :: "str \<Rightarrow> str \<Rightarrow> exception + str" where
  "quote string safe =
     (if string = [] then Inr string
      else case utf8_encode string of
             Inl e \<Rightarrow> Inl e
           | Inr bs \<Rightarrow> Inr (quote_from_bytes bs safe))"

subsection \<open>Percent-decoding: \<^verbatim>\<open>urllib.parse.unquote\<close>\<close>

text \<open>
  The client only encodes. Decoding is the inverse the same library offers,
  \<^verbatim>\<open>unquote\<close>; it is what a server applies to the path it receives.

  \<^verbatim>\<open>bytes.split(sep)\<close> for a separator of one byte: the pieces between the separators,
  never an empty list.
\<close>

fun split_bytes :: "byte \<Rightarrow> byte list \<Rightarrow> byte list list" where
  "split_bytes sep [] = [[]]"
| "split_bytes sep (b # bs) =
     (if b = sep then [] # split_bytes sep bs
      else (case split_bytes sep bs of
              [] \<Rightarrow> [[b]]
            | piece # pieces \<Rightarrow> (b # piece) # pieces))"

text \<open>
  The table \<^verbatim>\<open>_hextobyte\<close>: its keys are the pairs of characters of
  \<^verbatim>\<open>'0123456789ABCDEFabcdef'\<close>.
\<close>

definition hex_value :: "byte \<Rightarrow> nat option" where
  "hex_value b =
     (let n = unat b
      in if 48 \<le> n \<and> n \<le> 57 then Some (n - 48)
         else if 65 \<le> n \<and> n \<le> 70 then Some (n - 55)
         else if 97 \<le> n \<and> n \<le> 102 then Some (n - 87)
         else None)"

definition hextobyte :: "byte list \<Rightarrow> byte option" where
  "hextobyte key =
     (case key of
        [a, b] \<Rightarrow>
          (case hex_value a of
             None \<Rightarrow> None
           | Some h \<Rightarrow> (case hex_value b of None \<Rightarrow> None | Some l \<Rightarrow> Some (of_nat (16 * h + l))))
      | _ \<Rightarrow> None)"

text \<open>
  The loop body of \<^verbatim>\<open>unquote_to_bytes\<close> for one piece that followed a \<open>%\<close>: two
  hexadecimal digits become a byte, anything else keeps its \<open>%\<close>.
\<close>

definition unquote_item :: "byte list \<Rightarrow> byte list" where
  "unquote_item item =
     (case hextobyte (take 2 item) of
        Some b \<Rightarrow> b # drop 2 item
      | None \<Rightarrow> 37 # item)"

definition unquote_to_bytes :: "byte list \<Rightarrow> byte list" where
  "unquote_to_bytes string =
     (if string = [] then []
      else let bits = split_bytes 37 string
           in if length bits = 1 then string
              else hd bits @ concat (map unquote_item (tl bits)))"

text \<open>
  Reading bytes as UTF-8. \<open>None\<close> when they are not the UTF-8 form of any string
  (a stray continuation byte, a truncated or overlong sequence, a surrogate, a value above
  \<open>U+10FFFF\<close>); \<^verbatim>\<open>unquote\<close>, which decodes with \<^verbatim>\<open>errors='replace'\<close>, puts
  \<open>U+FFFD\<close> there instead, and that text is not modelled.
\<close>

definition is_continuation :: "byte \<Rightarrow> bool" where
  "is_continuation b = (0x80 \<le> unat b \<and> unat b < 0xC0)"

fun utf8_decode :: "byte list \<Rightarrow> str option" where
  "utf8_decode [] = Some []"
| "utf8_decode (b0 # bs) =
     (if unat b0 < 0x80 then map_option ((#) (unat b0)) (utf8_decode bs)
      else if 0xC2 \<le> unat b0 \<and> unat b0 < 0xE0 then
        (case bs of
           b1 # rest \<Rightarrow>
             if is_continuation b1
             then map_option ((#) ((unat b0 - 0xC0) * 64 + (unat b1 - 0x80))) (utf8_decode rest)
             else None
         | _ \<Rightarrow> None)
      else if 0xE0 \<le> unat b0 \<and> unat b0 < 0xF0 then
        (case bs of
           b1 # b2 # rest \<Rightarrow>
             if is_continuation b1 \<and> is_continuation b2 \<and>
                0x800 \<le> (unat b0 - 0xE0) * 4096 + (unat b1 - 0x80) * 64 + (unat b2 - 0x80) \<and>
                \<not> (0xD800 \<le> (unat b0 - 0xE0) * 4096 + (unat b1 - 0x80) * 64 + (unat b2 - 0x80) \<and>
                   (unat b0 - 0xE0) * 4096 + (unat b1 - 0x80) * 64 + (unat b2 - 0x80) < 0xE000)
             then map_option
                    ((#) ((unat b0 - 0xE0) * 4096 + (unat b1 - 0x80) * 64 + (unat b2 - 0x80)))
                    (utf8_decode rest)
             else None
         | _ \<Rightarrow> None)
      else if 0xF0 \<le> unat b0 \<and> unat b0 < 0xF5 then
        (case bs of
           b1 # b2 # b3 # rest \<Rightarrow>
             if is_continuation b1 \<and> is_continuation b2 \<and> is_continuation b3 \<and>
                0x10000 \<le> (unat b0 - 0xF0) * 262144 + (unat b1 - 0x80) * 4096
                             + (unat b2 - 0x80) * 64 + (unat b3 - 0x80) \<and>
                (unat b0 - 0xF0) * 262144 + (unat b1 - 0x80) * 4096
                  + (unat b2 - 0x80) * 64 + (unat b3 - 0x80) < 0x110000
             then map_option
                    ((#) ((unat b0 - 0xF0) * 262144 + (unat b1 - 0x80) * 4096
                          + (unat b2 - 0x80) * 64 + (unat b3 - 0x80)))
                    (utf8_decode rest)
             else None
         | _ \<Rightarrow> None)
      else None)"

text \<open>
  \<^verbatim>\<open>unquote(string)\<close>: a string without \<open>%\<close> comes back as it is. Otherwise each
  maximal run of ASCII characters is percent-decoded to bytes and the bytes are read as
  UTF-8; the characters outside ASCII between the runs are kept.
\<close>

function unquote_parts :: "str \<Rightarrow> str option" where
  "unquote_parts [] = Some []"
| "unquote_parts (c # cs) =
     (if c < 128 then
        (case utf8_decode (unquote_to_bytes (map of_nat (takeWhile (\<lambda>x. x < 128) (c # cs)))) of
           None \<Rightarrow> None
         | Some t \<Rightarrow> map_option ((@) t) (unquote_parts (dropWhile (\<lambda>x. x < 128) cs)))
      else map_option ((#) c) (unquote_parts cs))"
  by pat_completeness auto
termination
  by (relation "measure length") (auto simp add: le_imp_less_Suc length_dropWhile_le)

definition unquote :: "str \<Rightarrow> str option" where
  "unquote string = (if 37 \<notin> set string then Some string else unquote_parts string)"

subsection \<open>The convenience methods\<close>

text \<open>An argument with a default value is an option: \<open>None\<close> when the caller leaves it out.\<close>

definition test_connection :: "transport \<Rightarrow> session \<Rightarrow> (exception + json) \<times> session" where
  "test_connection net s = make_request net (lit ''/test'') None s"

definition get_status :: "transport \<Rightarrow> session \<Rightarrow> (exception + json) \<times> session" where
  "get_status net s = make_request net (lit ''/steam/status'') None s"

definition find_app_by_name ::
  "transport \<Rightarrow> str \<Rightarrow> session \<Rightarrow> (exception + json) \<times> session" where
  "find_app_by_name net app_name s =
     (let ps = [(lit ''name'', PStr app_name)]
      in make_request net (lit ''/steam/find-app'') (Some ps) s)"

definition get_app_details ::
  "transport \<Rightarrow> int \<Rightarrow> session \<Rightarrow> (exception + json) \<times> session" where
  "get_app_details net app_id s =
     make_request net (lit ''/steam/app/'' @ str_int app_id) None s"

definition get_supported_apps :: "transport \<Rightarrow> session \<Rightarrow> (exception + json) \<times> session" where
  "get_supported_apps net s = make_request net (lit ''/steam/apps'') None s"

definition get_item_price ::
  "transport \<Rightarrow> str \<Rightarrow> int option \<Rightarrow> session \<Rightarrow> (exception + json) \<times> session" where
  "get_item_price net item_name app_id_arg s =
     (let app_id = (case app_id_arg of None \<Rightarrow> 730 | Some a \<Rightarrow> a)
      in case quote item_name (lit ''/'') of
           Inl e \<Rightarrow> (Inl e, s)
         | Inr encoded_name \<Rightarrow>
             (let endpoint = lit ''/steam/item/'' @ encoded_name;
                  ps = (if app_id \<noteq> 730 then Some [(lit ''app_id'', PInt app_id)] else None)
              in make_request net endpoint ps s))"

definition search_items ::
  "transport \<Rightarrow> str \<Rightarrow> int option \<Rightarrow> int option \<Rightarrow> session
     \<Rightarrow> (exception + json) \<times> session" where
  "search_items net query app_id_arg count_arg s =
     (let app_id = (case app_id_arg of None \<Rightarrow> 730 | Some a \<Rightarrow> a);
          count = (case count_arg of None \<Rightarrow> 10 | Some c \<Rightarrow> c);
          ps = [(lit ''q'', PStr query),
                (lit ''app_id'', PInt app_id),
                (lit ''count'', PInt (min count 50))]
      in make_request net (lit ''/steam/search'') (Some ps) s)"

definition get_popular_items ::
  "transport \<Rightarrow> int option \<Rightarrow> session \<Rightarrow> (exception + json) \<times> session" where
  "get_popular_items net app_id_arg s =
     (let app_id = (case app_id_arg of None \<Rightarrow> 730 | Some a \<Rightarrow> a);
          ps = (if app_id \<noteq> 730 then Some [(lit ''app_id'', PInt app_id)] else None)
      in make_request net (lit ''/steam/popular'') ps s)"

text \<open>The eight convenience operations, to speak about all of them at once.\<close>

datatype operation =
    Test_connection
  | Get_status
  | Find_app_by_name str
  | Get_app_details int
  | Get_supported_apps
  | Get_item_price str "int option"
  | Search_items str "int option" "int option"
  | Get_popular_items "int option"

fun call :: "transport \<Rightarrow> operation \<Rightarrow> session \<Rightarrow> (exception + json) \<times> session" where
  "call net Test_connection s = test_connection net s"
| "call net Get_status s = get_status net s"
| "call net (Find_app_by_name app_name) s = find_app_by_name net app_name s"
| "call net (Get_app_details app_id) s = get_app_details net app_id s"
| "call net Get_supported_apps s = get_supported_apps net s"
| "call net (Get_item_price item_name app_id) s = get_item_price net item_name app_id s"
| "call net (Search_items query app_id count) s = search_items net query app_id count s"
| "call net (Get_popular_items app_id) s = get_popular_items net app_id s"

subsection \<open>Reading requests and results\<close>

text \<open>The value a request carries for a query parameter, if it carries the parameter.\<close>

definition query_param :: "str \<Rightarrow> http_request \<Rightarrow> param_value option" where
  "query_param k rq = (case params rq of None \<Rightarrow> None | Some ps \<Rightarrow> map_of ps k)"

text \<open>
  The failure shape: the method returns (it does not raise) a dictionary of exactly the
  three items \<open>success: False\<close>, \<open>error\<close> with a non-empty text, and \<open>endpoint\<close>.
\<close>

fun is_failure :: "exception + json \<Rightarrow> str \<Rightarrow> bool" where
  "is_failure (Inr (JDict [(k1, JBool b), (k2, JStr msg), (k3, JStr ep)])) endpoint =
     (k1 = lit ''success'' \<and> \<not> b \<and> k2 = lit ''error'' \<and> msg \<noteq> [] \<and>
      k3 = lit ''endpoint'' \<and> ep = endpoint)"
| "is_failure r endpoint = False"

text \<open>
  Two readings of a failed GET. \<open>transport_failure\<close> is the one of the specification: a
  connection error, a timeout, or a response whose status is not 2xx. \<open>caught_failure\<close>
  has the statuses that \<^verbatim>\<open>raise_for_status\<close> rejects, 4xx and 5xx.
\<close>

fun transport_failure :: "outcome \<Rightarrow> bool" where
  "transport_failure (Raises e) = (exc_type e = ConnectionError \<or> exc_type e = Timeout)"
| "transport_failure (Responds r) = (status_code r < 200 \<or> 300 \<le> status_code r)"

fun caught_failure :: "outcome \<Rightarrow> bool" where
  "caught_failure (Raises e) = (exc_type e = ConnectionError \<or> exc_type e = Timeout)"
| "caught_failure (Responds r) = (400 \<le> status_code r \<and> status_code r < 600)"

subsection \<open>Sample sessions and transports\<close>

definition fresh :: session where
  "fresh = \<lparr>self = init None, sent = []\<rparr>"

definition refusing_net :: transport where
  "refusing_net rq = Raises (Exc ConnectionError (lit ''Connection refused''))"

definition ok_net :: transport where
  "ok_net rq = Responds \<lparr>status_code = 200, reason = lit ''OK'', resp_url = url rq,
     json_body = Inr (JDict [(lit ''success'', JBool True), (lit ''name'', JStr (lit ''Test''))])\<rparr>"

definition garbled_net :: transport where
  "garbled_net rq = Responds \<lparr>status_code = 200, reason = lit ''OK'', resp_url = url rq,
     json_body = Inl (lit ''Expecting value: line 1 column 1 (char 0)'')\<rparr>"

definition multiple_choices_net :: transport where
  "multiple_choices_net rq = Responds \<lparr>status_code = 300, reason = lit ''Multiple Choices'',
     resp_url = url rq, json_body = Inr (JDict [(lit ''success'', JBool True)])\<rparr>"

definition redline :: str where
  "redline = lit ''AK-47 | Redline (Field-Tested)''"

section \<open>Properties\<close>

subsection \<open>The request primitive\<close>

lemma make_request_session:
  "snd (make_request net endpoint ps s) =
     s\<lparr>sent := sent s @ [\<lparr>url = api_base (self s) @ endpoint, params = ps, timeout = 30\<rparr>]\<rparr>"
  by (simp add: make_request_def Let_def split: sum.split)

lemma make_request_result:
  "fst (make_request net endpoint ps s) =
     (case try_body net \<lparr>url = api_base (self s) @ endpoint, params = ps, timeout = 30\<rparr> of
        Inr v \<Rightarrow> Inr v
      | Inl e \<Rightarrow> if is_RequestException (exc_type e) then Inr (failure e endpoint) else Inl e)"
  by (simp add: make_request_def Let_def split: sum.split)

lemma is_failure_failure: "is_failure (Inr (failure e endpoint)) endpoint"
  by (simp add: failure_def lit_def)

lemma raise_for_status_error:
  "400 \<le> status_code r \<Longrightarrow> status_code r < 600 \<Longrightarrow>
   \<exists>m. raise_for_status r = Some (Exc HTTPError m)"
  by (simp add: raise_for_status_def)

lemma raise_for_status_ok:
  "status_code r < 400 \<or> 600 \<le> status_code r \<Longrightarrow> raise_for_status r = None"
  by (auto simp add: raise_for_status_def)

lemma make_request_caught:
  assumes "caught_failure (net \<lparr>url = api_base (self s) @ endpoint, params = ps, timeout = 30\<rparr>)"
  shows "is_failure (fst (make_request net endpoint ps s)) endpoint"
proof (cases "net \<lparr>url = api_base (self s) @ endpoint, params = ps, timeout = 30\<rparr>")
  case (Raises e)
  with assms have "is_RequestException (exc_type e)" by auto
  with Raises show ?thesis
    by (simp add: make_request_result try_body_def is_failure_failure)
next
  case (Responds r)
  with assms obtain m where "raise_for_status r = Some (Exc HTTPError m)"
    using raise_for_status_error by auto
  with Responds show ?thesis
    by (simp add: make_request_result try_body_def is_failure_failure)
qed

lemma utf8_encode_error:
  "utf8_encode cs = Inl e \<Longrightarrow> exc_type e = UnicodeEncodeError"
  by (induction cs) (auto split: option.splits sum.splits)

lemma quote_error: "quote string safe = Inl e \<Longrightarrow> exc_type e = UnicodeEncodeError"
  by (auto simp add: quote_def utf8_encode_error split: if_splits sum.splits)

text \<open>
  Every operation either raises before any GET (the item name cannot be encoded) and
  leaves the session as it was, or is one call of the primitive.
\<close>

lemma call_cases:
  "(\<exists>e. call net op s = (Inl e, s) \<and> exc_type e = UnicodeEncodeError) \<or>
   (\<exists>endpoint ps. call net op s = make_request net endpoint ps s)"
proof (cases op)
  case (Get_item_price item_name app_id)
  show ?thesis
  proof (cases "quote item_name (lit ''/'')")
    case (Inl e)
    with Get_item_price show ?thesis
      by (simp add: get_item_price_def Let_def quote_error)
  next
    case (Inr enc)
    with Get_item_price show ?thesis
      by (simp add: get_item_price_def Let_def) blast
  qed
qed (simp_all add: test_connection_def get_status_def find_app_by_name_def
       get_app_details_def get_supported_apps_def search_items_def get_popular_items_def
       Let_def, blast+)

lemma call_self: "self (snd (call net op s)) = self s"
  using call_cases [of net op s] by (auto simp add: make_request_session)

lemma call_sent:
  "sent (snd (call net op s)) = sent s @ [rq] \<Longrightarrow>
   \<exists>endpoint. url rq = api_base (self s) @ endpoint \<and> timeout rq = 30 \<and>
      call net op s = make_request net endpoint (params rq) s"
  using call_cases [of net op s] by (auto simp add: make_request_session)


lemma request_eta: "\<lparr>url = url rq, params = params rq, timeout = timeout rq\<rparr> = (rq :: http_request)"
  by simp

text \<open>
  Claim C1, as the code has it. Whatever convenience operation is called: when the GET it
  issues fails with a connection error, a timeout or a response of status 400 to 599, the
  operation returns (it does not raise) the dictionary with exactly the items
  \<open>success: False\<close>, a non-empty \<open>error\<close> text and \<open>endpoint\<close>, the path suffix
  that was requested after the API root.
\<close>
theorem caught_failure_gives_failure_shape:
  assumes "sent (snd (call net op s)) = sent s @ [rq]"
    and "caught_failure (net rq)"
  shows "\<exists>endpoint. url rq = api_base (self s) @ endpoint \<and>
           is_failure (fst (call net op s)) endpoint"
proof -
  from assms(1) obtain endpoint where u: "url rq = api_base (self s) @ endpoint"
    and t: "timeout rq = 30"
    and c: "call net op s = make_request net endpoint (params rq) s"
    using call_sent by blast
  have "\<lparr>url = api_base (self s) @ endpoint, params = params rq, timeout = 30\<rparr> = rq"
    using u t request_eta [of rq] by simp
  with assms(2) have "is_failure (fst (make_request net endpoint (params rq) s)) endpoint"
    using make_request_caught [of net s endpoint "params rq"] by simp
  with u c show ?thesis by auto
qed

lemma fresh_api_base: "api_base (self fresh) = lit ''http://localhost:8000/api/v1''"
  by (simp add: fresh_def init_def rstrip_def lit_def)

text \<open>The theorem of C1 at \<^verbatim>\<open>get_status\<close> on a refused connection.\<close>
theorem caught_failure_gives_failure_shape_witness:
  "sent (snd (call refusing_net Get_status fresh))
     = sent fresh @ [\<lparr>url = lit ''http://localhost:8000/api/v1/steam/status'', params = None,
                       timeout = 30\<rparr>] \<and>
   caught_failure (refusing_net \<lparr>url = lit ''http://localhost:8000/api/v1/steam/status'',
                                 params = None, timeout = 30\<rparr>) \<and>
   (\<exists>endpoint. lit ''http://localhost:8000/api/v1/steam/status'' = api_base (self fresh) @ endpoint \<and>
      is_failure (fst (call refusing_net Get_status fresh)) endpoint)"
proof -
  have h1: "sent (snd (call refusing_net Get_status fresh))
     = sent fresh @ [\<lparr>url = lit ''http://localhost:8000/api/v1/steam/status'', params = None,
                       timeout = 30\<rparr>]"
    by (simp add: get_status_def make_request_session fresh_api_base) (simp add: lit_def)
  have h2: "caught_failure (refusing_net \<lparr>url = lit ''http://localhost:8000/api/v1/steam/status'',
                                 params = None, timeout = 30\<rparr>)"
    by (simp add: refusing_net_def)
  show ?thesis
    using h1 h2 caught_failure_gives_failure_shape [OF h1 h2] by simp
qed

text \<open>
  Claim C1 as stated counts every status outside 2xx as a failure. A response of status
  300 with a JSON body passes \<^verbatim>\<open>raise_for_status\<close>: \<^verbatim>\<open>test_connection\<close> returns the
  body, not the failure shape.
\<close>
theorem non_2xx_status_counterexample:
  "sent (snd (call multiple_choices_net Test_connection fresh))
     = sent fresh @ [\<lparr>url = lit ''http://localhost:8000/api/v1/test'', params = None,
                       timeout = 30\<rparr>] \<and>
   lit ''http://localhost:8000/api/v1/test'' = api_base (self fresh) @ lit ''/test'' \<and>
   transport_failure (multiple_choices_net \<lparr>url = lit ''http://localhost:8000/api/v1/test'',
                                            params = None, timeout = 30\<rparr>) \<and>
   fst (call multiple_choices_net Test_connection fresh) = Inr (JDict [(lit ''success'', JBool True)]) \<and>
   \<not> is_failure (fst (call multiple_choices_net Test_connection fresh)) (lit ''/test'')"
proof -
  have r: "fst (call multiple_choices_net Test_connection fresh) = Inr (JDict [(lit ''success'', JBool True)])"
    by (simp add: test_connection_def make_request_result try_body_def multiple_choices_net_def
        raise_for_status_def response_json_def)
  have s: "sent (snd (call multiple_choices_net Test_connection fresh))
     = sent fresh @ [\<lparr>url = lit ''http://localhost:8000/api/v1/test'', params = None,
                       timeout = 30\<rparr>]"
    by (simp add: test_connection_def make_request_session fresh_api_base) (simp add: lit_def)
  have u: "lit ''http://localhost:8000/api/v1/test'' = api_base (self fresh) @ lit ''/test''"
    by (simp add: fresh_api_base) (simp add: lit_def)
  have t: "transport_failure (multiple_choices_net \<lparr>url = lit ''http://localhost:8000/api/v1/test'',
                                            params = None, timeout = 30\<rparr>)"
    by (simp add: multiple_choices_net_def)
  have n: "\<not> is_failure (fst (call multiple_choices_net Test_connection fresh)) (lit ''/test'')"
    unfolding r by simp
  from s u t r n show ?thesis by blast
qed

text \<open>
  Claim C2. A 2xx response whose body is not JSON: the decoding error is caught inside the
  request primitive, which returns the failure shape with the decoder's text.
\<close>
theorem malformed_json_gives_failure_shape:
  assumes "net \<lparr>url = api_base (self s) @ endpoint, params = ps, timeout = 30\<rparr> = Responds r"
    and "200 \<le> status_code r" and "status_code r < 300"
    and "json_body r = Inl m"
  shows "fst (make_request net endpoint ps s)
           = Inr (JDict [(lit ''success'', JBool False),
                         (lit ''error'', JStr (lit ''Request failed: '' @ m)),
                         (lit ''endpoint'', JStr endpoint)]) \<and>
         is_failure (fst (make_request net endpoint ps s)) endpoint"
proof -
  from assms(2,3) have "raise_for_status r = None"
    by (simp add: raise_for_status_ok)
  with assms(1,4) have "fst (make_request net endpoint ps s)
      = Inr (failure (Exc JSONDecodeError m) endpoint)"
    by (simp add: make_request_result try_body_def response_json_def)
  then show ?thesis
    using is_failure_failure [of "Exc JSONDecodeError m" endpoint] by (simp add: failure_def)
qed

text \<open>
  Claim C6. A 2xx response whose body is valid JSON (a JSON object in particular): the
  request primitive returns the decoded value as it is.
\<close>
theorem success_body_returned_verbatim:
  assumes "net \<lparr>url = api_base (self s) @ endpoint, params = ps, timeout = 30\<rparr> = Responds r"
    and "200 \<le> status_code r" and "status_code r < 300"
    and "json_body r = Inr v"
  shows "fst (make_request net endpoint ps s) = Inr v"
proof -
  from assms(2,3) have "raise_for_status r = None"
    by (simp add: raise_for_status_ok)
  with assms(1,4) show ?thesis
    by (simp add: make_request_result try_body_def response_json_def)
qed

text \<open>The theorem of C2 on a 200 response with a body that is not JSON.\<close>
theorem malformed_json_gives_failure_shape_witness:
  "garbled_net \<lparr>url = api_base (self fresh) @ lit ''/steam/apps'', params = None, timeout = 30\<rparr>
     = Responds \<lparr>status_code = 200, reason = lit ''OK'',
         resp_url = api_base (self fresh) @ lit ''/steam/apps'',
         json_body = Inl (lit ''Expecting value: line 1 column 1 (char 0)'')\<rparr> \<and>
   fst (make_request garbled_net (lit ''/steam/apps'') None fresh)
     = Inr (JDict [(lit ''success'', JBool False),
                   (lit ''error'', JStr (lit ''Request failed: Expecting value: line 1 column 1 (char 0)'')),
                   (lit ''endpoint'', JStr (lit ''/steam/apps''))]) \<and>
   is_failure (fst (make_request garbled_net (lit ''/steam/apps'') None fresh)) (lit ''/steam/apps'')"
proof -
  have h: "garbled_net \<lparr>url = api_base (self fresh) @ lit ''/steam/apps'', params = None, timeout = 30\<rparr>
     = Responds \<lparr>status_code = 200, reason = lit ''OK'',
         resp_url = api_base (self fresh) @ lit ''/steam/apps'',
         json_body = Inl (lit ''Expecting value: line 1 column 1 (char 0)'')\<rparr>"
    by (simp add: garbled_net_def)
  have e: "lit ''Request failed: '' @ lit ''Expecting value: line 1 column 1 (char 0)''
     = lit ''Request failed: Expecting value: line 1 column 1 (char 0)''"
    by (simp add: lit_def)
  have c: "fst (make_request garbled_net (lit ''/steam/apps'') None fresh)
     = Inr (JDict [(lit ''success'', JBool False),
                   (lit ''error'', JStr (lit ''Request failed: '' @ lit ''Expecting value: line 1 column 1 (char 0)'')),
                   (lit ''endpoint'', JStr (lit ''/steam/apps''))]) \<and>
     is_failure (fst (make_request garbled_net (lit ''/steam/apps'') None fresh)) (lit ''/steam/apps'')"
    by (rule malformed_json_gives_failure_shape [of garbled_net fresh "lit ''/steam/apps''" None
        "\<lparr>status_code = 200, reason = lit ''OK'',
         resp_url = api_base (self fresh) @ lit ''/steam/apps'',
         json_body = Inl (lit ''Expecting value: line 1 column 1 (char 0)'')\<rparr>"
        "lit ''Expecting value: line 1 column 1 (char 0)''", OF h]) simp_all
  from h c [unfolded e] show ?thesis by blast
qed

text \<open>The theorem of C6 on the body \<^verbatim>\<open>{"success": true, "name": "Test"}\<close>.\<close>
theorem success_body_returned_verbatim_witness:
  "ok_net \<lparr>url = api_base (self fresh) @ lit ''/test'', params = None, timeout = 30\<rparr>
     = Responds \<lparr>status_code = 200, reason = lit ''OK'',
         resp_url = api_base (self fresh) @ lit ''/test'',
         json_body = Inr (JDict [(lit ''success'', JBool True), (lit ''name'', JStr (lit ''Test''))])\<rparr> \<and>
   fst (make_request ok_net (lit ''/test'') None fresh)
     = Inr (JDict [(lit ''success'', JBool True), (lit ''name'', JStr (lit ''Test''))])"
proof -
  have h: "ok_net \<lparr>url = api_base (self fresh) @ lit ''/test'', params = None, timeout = 30\<rparr>
     = Responds \<lparr>status_code = 200, reason = lit ''OK'',
         resp_url = api_base (self fresh) @ lit ''/test'',
         json_body = Inr (JDict [(lit ''success'', JBool True), (lit ''name'', JStr (lit ''Test''))])\<rparr>"
    by (simp add: ok_net_def)
  show ?thesis
    using h success_body_returned_verbatim [of ok_net fresh "lit ''/test''" None
        "\<lparr>status_code = 200, reason = lit ''OK'',
         resp_url = api_base (self fresh) @ lit ''/test'',
         json_body = Inr (JDict [(lit ''success'', JBool True), (lit ''name'', JStr (lit ''Test''))])\<rparr>"
        "JDict [(lit ''success'', JBool True), (lit ''name'', JStr (lit ''Test''))]"]
    by simp
qed

subsection \<open>The requests of the convenience methods\<close>

lemma make_request_sent:
  "sent (snd (make_request net endpoint ps s))
     = sent s @ [\<lparr>url = api_base (self s) @ endpoint, params = ps, timeout = 30\<rparr>]"
  by (simp add: make_request_session)

lemma search_items_sent:
  "sent (snd (search_items net query app_id count s))
     = sent s @ [\<lparr>url = api_base (self s) @ lit ''/steam/search'',
                   params = Some [(lit ''q'', PStr query),
                                  (lit ''app_id'', PInt (case app_id of None \<Rightarrow> 730 | Some a \<Rightarrow> a)),
                                  (lit ''count'', PInt (min (case count of None \<Rightarrow> 10 | Some c \<Rightarrow> c) 50))],
                   timeout = 30\<rparr>]"
  by (simp add: search_items_def Let_def make_request_sent)

lemma get_popular_items_sent:
  "sent (snd (get_popular_items net app_id s))
     = sent s @ [\<lparr>url = api_base (self s) @ lit ''/steam/popular'',
                   params = (if (case app_id of None \<Rightarrow> 730 | Some a \<Rightarrow> a) \<noteq> 730
                             then Some [(lit ''app_id'', PInt (case app_id of None \<Rightarrow> 730 | Some a \<Rightarrow> a))]
                             else None),
                   timeout = 30\<rparr>]"
  by (simp add: get_popular_items_def Let_def make_request_sent)

lemma get_item_price_sent:
  "quote item_name (lit ''/'') = Inr encoded_name \<Longrightarrow>
   sent (snd (get_item_price net item_name app_id s))
     = sent s @ [\<lparr>url = api_base (self s) @ lit ''/steam/item/'' @ encoded_name,
                   params = (if (case app_id of None \<Rightarrow> 730 | Some a \<Rightarrow> a) \<noteq> 730
                             then Some [(lit ''app_id'', PInt (case app_id of None \<Rightarrow> 730 | Some a \<Rightarrow> a))]
                             else None),
                   timeout = 30\<rparr>]"
  by (simp add: get_item_price_def Let_def make_request_sent)

lemma lit_keys_distinct:
  "lit ''q'' \<noteq> lit ''app_id''" "lit ''q'' \<noteq> lit ''count''" "lit ''app_id'' \<noteq> lit ''count''"
  "lit ''app_id'' \<noteq> lit ''q''" "lit ''count'' \<noteq> lit ''q''" "lit ''count'' \<noteq> lit ''app_id''"
  by (simp_all add: lit_def)

text \<open>
  Claim C3. \<^verbatim>\<open>search_items\<close> with a count above 50 issues one request whose \<open>count\<close>
  parameter is 50; and clamping is idempotent: calling with the clamped count is the same
  call as calling with the count itself.
\<close>
theorem search_items_count_clamped:
  "(50 < c \<longrightarrow>
      (\<exists>rq. sent (snd (search_items net query app_id (Some c) s)) = sent s @ [rq] \<and>
            query_param (lit ''count'') rq = Some (PInt 50))) \<and>
   search_items net query app_id (Some (min c 50)) s = search_items net query app_id (Some c) s"
  by (simp add: search_items_sent query_param_def lit_keys_distinct) (simp add: search_items_def)

text \<open>The theorem of C3 at count 70.\<close>
theorem search_items_count_clamped_witness:
  "(50::int) < 70 \<and>
   (\<exists>rq. sent (snd (search_items refusing_net (lit ''AK-47'') None (Some 70) fresh)) = sent fresh @ [rq] \<and>
         query_param (lit ''count'') rq = Some (PInt 50)) \<and>
   search_items refusing_net (lit ''AK-47'') None (Some (min 70 50)) fresh
     = search_items refusing_net (lit ''AK-47'') None (Some 70) fresh"
  using search_items_count_clamped [of 70 refusing_net "lit ''AK-47''" None fresh] by simp

text \<open>
  Claim C10. The clamp is one-sided: a count of at most 50, zero and negative counts
  included, is transmitted unchanged.
\<close>
theorem search_items_count_unchanged_below:
  "c \<le> 50 \<Longrightarrow>
   \<exists>rq. sent (snd (search_items net query app_id (Some c) s)) = sent s @ [rq] \<and>
        query_param (lit ''count'') rq = Some (PInt c)"
  by (simp add: search_items_sent query_param_def lit_keys_distinct)

text \<open>The theorem of C10 at the counts -3 and 0.\<close>
theorem search_items_count_unchanged_below_witness:
  "(-3::int) \<le> 50 \<and> (0::int) \<le> 50 \<and>
   (\<exists>rq. sent (snd (search_items ok_net (lit ''AK-47'') None (Some (-3)) fresh)) = sent fresh @ [rq] \<and>
        query_param (lit ''count'') rq = Some (PInt (-3))) \<and>
   (\<exists>rq. sent (snd (search_items ok_net (lit ''AK-47'') None (Some 0) fresh)) = sent fresh @ [rq] \<and>
        query_param (lit ''count'') rq = Some (PInt 0))"
  using search_items_count_unchanged_below [of "-3" ok_net "lit ''AK-47''" None fresh]
    search_items_count_unchanged_below [of 0 ok_net "lit ''AK-47''" None fresh]
  by simp

text \<open>
  Claim C9. \<^verbatim>\<open>search_items\<close> always transmits \<open>app_id\<close>, also when it is the default
  730, given or left out.
\<close>
theorem search_items_always_sends_app_id:
  "(\<exists>rq. sent (snd (search_items net query app_id count s)) = sent s @ [rq] \<and>
         query_param (lit ''app_id'') rq
           = Some (PInt (case app_id of None \<Rightarrow> 730 | Some a \<Rightarrow> a))) \<and>
   (\<exists>rq. sent (snd (search_items net query (Some 730) count s)) = sent s @ [rq] \<and>
         query_param (lit ''app_id'') rq = Some (PInt 730)) \<and>
   (\<exists>rq. sent (snd (search_items net query None count s)) = sent s @ [rq] \<and>
         query_param (lit ''app_id'') rq = Some (PInt 730))"
  by (simp add: search_items_sent query_param_def lit_keys_distinct)

lemma quote_redline:
  "quote redline (lit ''/'') = Inr (lit ''AK-47%20%7C%20Redline%20%28Field-Tested%29'')"
  by (simp add: redline_def quote_def lit_def utf8_encode_char_def quote_from_bytes_def
      quoter_def always_safe_def hex_digit_def)

text \<open>
  Claim C4. \<^verbatim>\<open>get_item_price\<close> (when the item name can be encoded, so that a request
  is made at all) and \<^verbatim>\<open>get_popular_items\<close>: with \<open>app_id\<close> 730, given or left out,
  the request has no parameters; with any other \<open>app_id\<close> it has the one parameter
  \<open>app_id\<close>, equal to the argument.
\<close>
theorem app_id_omitted_when_default:
  "(quote item_name (lit ''/'') = Inr encoded_name \<longrightarrow>
      (\<exists>rq. sent (snd (get_item_price net item_name (Some a) s)) = sent s @ [rq] \<and>
            params rq = (if a = 730 then None else Some [(lit ''app_id'', PInt a)]) \<and>
            query_param (lit ''app_id'') rq = (if a = 730 then None else Some (PInt a))) \<and>
      (\<exists>rq. sent (snd (get_item_price net item_name None s)) = sent s @ [rq] \<and>
            params rq = None \<and> query_param (lit ''app_id'') rq = None)) \<and>
   (\<exists>rq. sent (snd (get_popular_items net (Some a) s)) = sent s @ [rq] \<and>
         params rq = (if a = 730 then None else Some [(lit ''app_id'', PInt a)]) \<and>
         query_param (lit ''app_id'') rq = (if a = 730 then None else Some (PInt a))) \<and>
   (\<exists>rq. sent (snd (get_popular_items net None s)) = sent s @ [rq] \<and>
         params rq = None \<and> query_param (lit ''app_id'') rq = None)"
  by (simp add: get_item_price_sent get_popular_items_sent query_param_def)

text \<open>The theorem of C4 at the item of the demonstration and the ids 730 and 440.\<close>
theorem app_id_omitted_when_default_witness:
  "quote redline (lit ''/'') = Inr (lit ''AK-47%20%7C%20Redline%20%28Field-Tested%29'') \<and>
   (\<exists>rq. sent (snd (get_item_price ok_net redline (Some 730) fresh)) = sent fresh @ [rq] \<and>
         params rq = None \<and> query_param (lit ''app_id'') rq = None) \<and>
   (\<exists>rq. sent (snd (get_item_price ok_net redline (Some 440) fresh)) = sent fresh @ [rq] \<and>
         params rq = Some [(lit ''app_id'', PInt 440)] \<and>
         query_param (lit ''app_id'') rq = Some (PInt 440)) \<and>
   (\<exists>rq. sent (snd (get_popular_items ok_net (Some 730) fresh)) = sent fresh @ [rq] \<and>
         params rq = None \<and> query_param (lit ''app_id'') rq = None) \<and>
   (\<exists>rq. sent (snd (get_popular_items ok_net (Some 440) fresh)) = sent fresh @ [rq] \<and>
         params rq = Some [(lit ''app_id'', PInt 440)] \<and>
         query_param (lit ''app_id'') rq = Some (PInt 440))"
  using quote_redline
    app_id_omitted_when_default [of redline "lit ''AK-47%20%7C%20Redline%20%28Field-Tested%29''" ok_net 730 fresh]
    app_id_omitted_when_default [of redline "lit ''AK-47%20%7C%20Redline%20%28Field-Tested%29''" ok_net 440 fresh]
  by simp

text \<open>
  Claim C7. Each convenience method appends exactly one GET to the log, whatever the
  transport answers: the URL is the API root followed by the method's path, the
  parameters are the method's, the timeout is 30. (\<^verbatim>\<open>get_item_price\<close>: when the item
  name can be encoded.)
\<close>
theorem one_get_per_operation:
  "sent (snd (test_connection net s))
     = sent s @ [\<lparr>url = api_base (self s) @ lit ''/test'', params = None, timeout = 30\<rparr>] \<and>
   sent (snd (get_status net s))
     = sent s @ [\<lparr>url = api_base (self s) @ lit ''/steam/status'', params = None, timeout = 30\<rparr>] \<and>
   sent (snd (find_app_by_name net app_name s))
     = sent s @ [\<lparr>url = api_base (self s) @ lit ''/steam/find-app'',
                   params = Some [(lit ''name'', PStr app_name)], timeout = 30\<rparr>] \<and>
   sent (snd (get_app_details net app_id s))
     = sent s @ [\<lparr>url = api_base (self s) @ lit ''/steam/app/'' @ str_int app_id,
                   params = None, timeout = 30\<rparr>] \<and>
   sent (snd (get_supported_apps net s))
     = sent s @ [\<lparr>url = api_base (self s) @ lit ''/steam/apps'', params = None, timeout = 30\<rparr>] \<and>
   (quote item_name (lit ''/'') = Inr encoded_name \<longrightarrow>
    sent (snd (get_item_price net item_name app_id_arg s))
     = sent s @ [\<lparr>url = api_base (self s) @ lit ''/steam/item/'' @ encoded_name,
                   params = (if (case app_id_arg of None \<Rightarrow> 730 | Some a \<Rightarrow> a) \<noteq> 730
                             then Some [(lit ''app_id'',
                                         PInt (case app_id_arg of None \<Rightarrow> 730 | Some a \<Rightarrow> a))]
                             else None),
                   timeout = 30\<rparr>]) \<and>
   sent (snd (search_items net query app_id_arg count_arg s))
     = sent s @ [\<lparr>url = api_base (self s) @ lit ''/steam/search'',
                   params = Some [(lit ''q'', PStr query),
                                  (lit ''app_id'',
                                   PInt (case app_id_arg of None \<Rightarrow> 730 | Some a \<Rightarrow> a)),
                                  (lit ''count'',
                                   PInt (min (case count_arg of None \<Rightarrow> 10 | Some c \<Rightarrow> c) 50))],
                   timeout = 30\<rparr>] \<and>
   sent (snd (get_popular_items net app_id_arg s))
     = sent s @ [\<lparr>url = api_base (self s) @ lit ''/steam/popular'',
                   params = (if (case app_id_arg of None \<Rightarrow> 730 | Some a \<Rightarrow> a) \<noteq> 730
                             then Some [(lit ''app_id'',
                                         PInt (case app_id_arg of None \<Rightarrow> 730 | Some a \<Rightarrow> a))]
                             else None),
                   timeout = 30\<rparr>]"
proof -
  have 1: "sent (snd (test_connection net s))
     = sent s @ [\<lparr>url = api_base (self s) @ lit ''/test'', params = None, timeout = 30\<rparr>]"
    by (simp add: test_connection_def make_request_sent)
  have 2: "sent (snd (get_status net s))
     = sent s @ [\<lparr>url = api_base (self s) @ lit ''/steam/status'', params = None, timeout = 30\<rparr>]"
    by (simp add: get_status_def make_request_sent)
  have 3: "sent (snd (find_app_by_name net app_name s))
     = sent s @ [\<lparr>url = api_base (self s) @ lit ''/steam/find-app'',
                   params = Some [(lit ''name'', PStr app_name)], timeout = 30\<rparr>]"
    by (simp add: find_app_by_name_def make_request_sent)
  have 4: "sent (snd (get_app_details net app_id s))
     = sent s @ [\<lparr>url = api_base (self s) @ lit ''/steam/app/'' @ str_int app_id,
                   params = None, timeout = 30\<rparr>]"
    by (simp add: get_app_details_def make_request_sent)
  have 5: "sent (snd (get_supported_apps net s))
     = sent s @ [\<lparr>url = api_base (self s) @ lit ''/steam/apps'', params = None, timeout = 30\<rparr>]"
    by (simp add: get_supported_apps_def make_request_sent)
  show ?thesis
    using 1 2 3 4 5 get_item_price_sent [of item_name encoded_name net app_id_arg s]
      search_items_sent [of net query app_id_arg count_arg s]
      get_popular_items_sent [of net app_id_arg s]
    by blast
qed

lemma str_int_730: "str_int 730 = lit ''730''"
  by (simp add: str_int_def str_nat.simps [of 730] str_nat.simps [of 73] str_nat.simps [of 7] lit_def)


text \<open>The theorem of C7 at the calls of the demonstration.\<close>
theorem one_get_per_operation_witness:
  "quote redline (lit ''/'') = Inr (lit ''AK-47%20%7C%20Redline%20%28Field-Tested%29'') \<and>
   sent (snd (test_connection refusing_net fresh))
     = [\<lparr>url = lit ''http://localhost:8000/api/v1/test'', params = None, timeout = 30\<rparr>] \<and>
   sent (snd (find_app_by_name ok_net (lit ''Counter-Strike'') fresh))
     = [\<lparr>url = lit ''http://localhost:8000/api/v1/steam/find-app'',
         params = Some [(lit ''name'', PStr (lit ''Counter-Strike''))], timeout = 30\<rparr>] \<and>
   sent (snd (get_app_details ok_net 730 fresh))
     = [\<lparr>url = lit ''http://localhost:8000/api/v1/steam/app/730'', params = None, timeout = 30\<rparr>] \<and>
   sent (snd (get_item_price ok_net redline None fresh))
     = [\<lparr>url = lit ''http://localhost:8000/api/v1/steam/item/AK-47%20%7C%20Redline%20%28Field-Tested%29'',
         params = None, timeout = 30\<rparr>] \<and>
   sent (snd (search_items ok_net (lit ''AK-47'') None (Some 3) fresh))
     = [\<lparr>url = lit ''http://localhost:8000/api/v1/steam/search'',
         params = Some [(lit ''q'', PStr (lit ''AK-47'')), (lit ''app_id'', PInt 730),
                        (lit ''count'', PInt 3)],
         timeout = 30\<rparr>]"
proof -
  have a: "sent fresh = []"
    by (simp add: fresh_def)
  have u: "lit ''http://localhost:8000/api/v1'' @ lit ''/test'' = lit ''http://localhost:8000/api/v1/test''"
    "lit ''http://localhost:8000/api/v1'' @ lit ''/steam/find-app''
       = lit ''http://localhost:8000/api/v1/steam/find-app''"
    "lit ''http://localhost:8000/api/v1'' @ lit ''/steam/app/'' @ lit ''730''
       = lit ''http://localhost:8000/api/v1/steam/app/730''"
    "lit ''http://localhost:8000/api/v1'' @ lit ''/steam/item/''
         @ lit ''AK-47%20%7C%20Redline%20%28Field-Tested%29''
       = lit ''http://localhost:8000/api/v1/steam/item/AK-47%20%7C%20Redline%20%28Field-Tested%29''"
    "lit ''http://localhost:8000/api/v1'' @ lit ''/steam/search''
       = lit ''http://localhost:8000/api/v1/steam/search''"
    by (simp_all add: lit_def)
  have t: "sent (snd (test_connection refusing_net fresh))
     = [\<lparr>url = lit ''http://localhost:8000/api/v1/test'', params = None, timeout = 30\<rparr>]"
    using one_get_per_operation [of refusing_net fresh]
    by (simp add: a fresh_api_base u)
  have r: "sent (snd (find_app_by_name ok_net (lit ''Counter-Strike'') fresh))
     = [\<lparr>url = lit ''http://localhost:8000/api/v1/steam/find-app'',
         params = Some [(lit ''name'', PStr (lit ''Counter-Strike''))], timeout = 30\<rparr>] \<and>
   sent (snd (get_app_details ok_net 730 fresh))
     = [\<lparr>url = lit ''http://localhost:8000/api/v1/steam/app/730'', params = None, timeout = 30\<rparr>] \<and>
   sent (snd (get_item_price ok_net redline None fresh))
     = [\<lparr>url = lit ''http://localhost:8000/api/v1/steam/item/AK-47%20%7C%20Redline%20%28Field-Tested%29'',
         params = None, timeout = 30\<rparr>] \<and>
   sent (snd (search_items ok_net (lit ''AK-47'') None (Some 3) fresh))
     = [\<lparr>url = lit ''http://localhost:8000/api/v1/steam/search'',
         params = Some [(lit ''q'', PStr (lit ''AK-47'')), (lit ''app_id'', PInt 730),
                        (lit ''count'', PInt 3)],
         timeout = 30\<rparr>]"
    using quote_redline
      one_get_per_operation [of ok_net fresh "lit ''Counter-Strike''" 730 redline
        "lit ''AK-47%20%7C%20Redline%20%28Field-Tested%29''" None "lit ''AK-47''" "Some 3"]
    by (simp add: a fresh_api_base u str_int_730)
  from quote_redline t r show ?thesis by blast
qed

subsection \<open>The configuration\<close>

lemma takeWhile_eq_replicate:
  "takeWhile (\<lambda>c. c = a) xs = replicate (length (takeWhile (\<lambda>c. c = a) xs)) a"
  by (induction xs) auto

lemma rstrip_slash_split:
  "\<exists>k. b = rstrip b (lit ''/'') @ concat (replicate k (lit ''/''))"
proof -
  let ?P = "\<lambda>c. c = (47::nat)"
  have r: "rstrip b (lit ''/'') = rev (dropWhile ?P (rev b))"
    by (simp add: rstrip_def lit_def)
  have "b = rev (takeWhile ?P (rev b) @ dropWhile ?P (rev b))"
    by simp
  also have "\<dots> = rev (dropWhile ?P (rev b)) @ rev (takeWhile ?P (rev b))"
    by (simp only: rev_append)
  also have "rev (takeWhile ?P (rev b))
      = rev (replicate (length (takeWhile ?P (rev b))) 47)"
    using takeWhile_eq_replicate [of 47 "rev b"] by simp
  also have "\<dots> = concat (replicate (length (takeWhile ?P (rev b))) (lit ''/''))"
    by (induction "length (takeWhile ?P (rev b))") (simp_all add: lit_def)
  finally show ?thesis
    using r by metis
qed

lemma rstrip_slash_end: "\<not> (\<exists>t. rstrip b (lit ''/'') = t @ lit ''/'')"
proof
  let ?P = "\<lambda>c. c = (47::nat)"
  assume "\<exists>t. rstrip b (lit ''/'') = t @ lit ''/''"
  then obtain t where "rev (dropWhile ?P (rev b)) = t @ [47]"
    by (auto simp add: rstrip_def lit_def)
  then have "dropWhile ?P (rev b) = 47 # rev t"
    by (metis rev_rev_ident rev_append rev.simps append_Nil append_Cons)
  then have "dropWhile ?P (rev b) \<noteq> [] \<and> ?P (hd (dropWhile ?P (rev b)))"
    by simp
  then show False
    using hd_dropWhile [of ?P "rev b"] by blast
qed

text \<open>
  Claim C8. The constructor stores the base URL without its trailing slashes (the
  argument is the stored value followed by slashes only, and the stored value does not end
  in a slash) and the API root, the stored base URL followed by \<open>/api/v1\<close>; the default
  base URL is \<open>http://localhost:8000\<close>; no operation changes the client.
\<close>
theorem client_configuration:
  "base_url (init (Some b)) = rstrip b (lit ''/'') \<and>
   api_base (init (Some b)) = rstrip b (lit ''/'') @ lit ''/api/v1'' \<and>
   (\<exists>k. b = rstrip b (lit ''/'') @ concat (replicate k (lit ''/''))) \<and>
   \<not> (\<exists>t. rstrip b (lit ''/'') = t @ lit ''/'') \<and>
   init None = init (Some (lit ''http://localhost:8000'')) \<and>
   base_url (init None) = lit ''http://localhost:8000'' \<and>
   api_base (init None) = lit ''http://localhost:8000/api/v1'' \<and>
   self (snd (call net op s)) = self s"
proof -
  have 1: "base_url (init (Some b)) = rstrip b (lit ''/'')"
    and 2: "api_base (init (Some b)) = rstrip b (lit ''/'') @ lit ''/api/v1''"
    and 3: "init None = init (Some (lit ''http://localhost:8000''))"
    by (simp_all add: init_def Let_def)
  have 4: "base_url (init None) = lit ''http://localhost:8000''"
    and 5: "api_base (init None) = lit ''http://localhost:8000/api/v1''"
    by (simp_all add: init_def rstrip_def lit_def)
  from 1 2 3 4 5 rstrip_slash_split [of b] rstrip_slash_end [of b] call_self [of net op s]
  show ?thesis by blast
qed

text \<open>The theorem of C8 at a base URL with two trailing slashes.\<close>
theorem client_configuration_witness:
  "base_url (init (Some (lit ''https://steam.example.org:8443//''))) = lit ''https://steam.example.org:8443'' \<and>
   api_base (init (Some (lit ''https://steam.example.org:8443//'')))
     = lit ''https://steam.example.org:8443/api/v1'' \<and>
   self (snd (call ok_net (Get_item_price redline (Some 440))
                \<lparr>self = init (Some (lit ''https://steam.example.org:8443//'')), sent = []\<rparr>))
     = \<lparr>base_url = lit ''https://steam.example.org:8443'',
        api_base = lit ''https://steam.example.org:8443/api/v1''\<rparr>"
proof -
  have r: "rstrip (lit ''https://steam.example.org:8443//'') (lit ''/'') = lit ''https://steam.example.org:8443''"
    by (simp add: rstrip_def lit_def)
  have u: "lit ''https://steam.example.org:8443'' @ lit ''/api/v1'' = lit ''https://steam.example.org:8443/api/v1''"
    by (simp add: lit_def)
  have i: "init (Some (lit ''https://steam.example.org:8443//''))
     = \<lparr>base_url = lit ''https://steam.example.org:8443'',
        api_base = lit ''https://steam.example.org:8443/api/v1''\<rparr>"
    by (simp add: init_def Let_def r u)
  show ?thesis
    using client_configuration [of "lit ''https://steam.example.org:8443//''" ok_net
        "Get_item_price redline (Some 440)"
        "\<lparr>self = init (Some (lit ''https://steam.example.org:8443//'')), sent = []\<rparr>"]
    by (simp add: r u i)
qed

subsection \<open>Bytes and hexadecimal digits\<close>

lemma unat_byte_of_nat: "n < 256 \<Longrightarrow> unat (of_nat n :: byte) = n"
  by (simp add: unat_of_nat)

lemma unat_byte_less: "unat (b :: byte) < 256"
  using unsigned_less [of b, where ?'a = nat] by simp

lemma hex_value_hex_digit: "d < 16 \<Longrightarrow> hex_value (of_nat (hex_digit d)) = Some d"
  by (auto simp add: hex_value_def hex_digit_def unat_byte_of_nat Let_def)

lemma hex_digit_not_percent: "d < 16 \<Longrightarrow> (of_nat (hex_digit d) :: byte) \<noteq> 37"
proof
  assume d: "d < 16" and e: "(of_nat (hex_digit d) :: byte) = 37"
  from d have "hex_digit d < 256" by (simp add: hex_digit_def)
  then have "unat (of_nat (hex_digit d) :: byte) = hex_digit d"
    by (rule unat_byte_of_nat)
  with e have "hex_digit d = 37" by simp
  with d show False by (simp add: hex_digit_def split: if_splits)
qed

lemma hextobyte_hex:
  "hextobyte [of_nat (hex_digit (unat b div 16)), of_nat (hex_digit (unat b mod 16))] = Some b"
proof -
  have 1: "unat b div 16 < 16" using unat_byte_less [of b] by simp
  have 2: "unat b mod 16 < 16" by simp
  have "(of_nat (16 * (unat b div 16) + unat b mod 16) :: byte) = of_nat (unat b)"
    by (simp only: mult_div_mod_eq)
  then show ?thesis
    by (simp add: hextobyte_def hex_value_hex_digit [OF 1] hex_value_hex_digit [OF 2])
qed


subsection \<open>Percent-decoding undoes percent-encoding, on bytes\<close>

lemma split_bytes_nonempty: "split_bytes sep bs \<noteq> []"
  by (induction bs) (auto split: list.splits)

lemma split_bytes_other:
  "b \<noteq> sep \<Longrightarrow>
   split_bytes sep (b # bs) = (b # hd (split_bytes sep bs)) # tl (split_bytes sep bs)"
  using split_bytes_nonempty [of sep bs] by (cases "split_bytes sep bs") auto

lemma split_bytes_single: "length (split_bytes sep bs) = 1 \<Longrightarrow> split_bytes sep bs = [bs]"
proof (induction bs)
  case Nil
  then show ?case by simp
next
  case (Cons b bs)
  show ?case
  proof (cases "b = sep")
    case True
    with Cons.prems split_bytes_nonempty [of sep bs] show ?thesis by simp
  next
    case False
    with Cons.prems have "length (tl (split_bytes sep bs)) = 0"
      by (simp add: split_bytes_other del: split_bytes.simps)
    with split_bytes_nonempty [of sep bs] have "length (split_bytes sep bs) = 1"
      by (cases "split_bytes sep bs") simp_all
    with Cons.IH have "split_bytes sep bs = [bs]" by simp
    with False show ?thesis by (simp add: split_bytes_other del: split_bytes.simps)
  qed
qed

text \<open>The general branch of \<^verbatim>\<open>unquote_to_bytes\<close> gives its result in every case.\<close>

lemma unquote_to_bytes_eq:
  "unquote_to_bytes bs
     = hd (split_bytes 37 bs) @ concat (map unquote_item (tl (split_bytes 37 bs)))"
proof (cases "bs = []")
  case True
  then show ?thesis by (simp add: unquote_to_bytes_def)
next
  case False
  show ?thesis
  proof (cases "length (split_bytes 37 bs) = 1")
    case True
    then have "split_bytes 37 bs = [bs]" by (rule split_bytes_single)
    with False True show ?thesis by (simp add: unquote_to_bytes_def)
  next
    case False
    with \<open>bs \<noteq> []\<close> show ?thesis by (simp add: unquote_to_bytes_def Let_def)
  qed
qed

lemma unquote_to_bytes_plain:
  "b \<noteq> 37 \<Longrightarrow> unquote_to_bytes (b # bs) = b # unquote_to_bytes bs"
  by (simp add: unquote_to_bytes_eq split_bytes_other del: split_bytes.simps)

lemma unquote_to_bytes_escape:
  assumes "h \<noteq> 37" and "l \<noteq> 37" and "hextobyte [h, l] = Some x"
  shows "unquote_to_bytes (37 # h # l # bs) = x # unquote_to_bytes bs"
proof -
  have "split_bytes 37 (h # l # bs) = (h # l # hd (split_bytes 37 bs)) # tl (split_bytes 37 bs)"
    using assms(1,2) by (simp add: split_bytes_other del: split_bytes.simps)
  then have "split_bytes 37 (37 # h # l # bs)
      = [] # (h # l # hd (split_bytes 37 bs)) # tl (split_bytes 37 bs)"
    by simp
  with assms(3) show ?thesis
    by (simp add: unquote_to_bytes_eq unquote_item_def)
qed

lemma safe_chars:
  "c \<in> set (always_safe @ lit ''/'') \<Longrightarrow> c < 128 \<and> c \<noteq> 37"
  by (auto simp add: always_safe_def lit_def)

lemma unquote_to_bytes_quoter:
  "unquote_to_bytes (map of_nat (quoter (lit ''/'') b) @ rest) = b # unquote_to_bytes rest"
proof (cases "unat b \<in> set (always_safe @ lit ''/'')")
  case True
  then have "unat b \<noteq> 37" using safe_chars by blast
  then have "b \<noteq> 37" by auto
  with True show ?thesis
    by (simp add: quoter_def unquote_to_bytes_plain)
next
  case False
  have 1: "unat b div 16 < 16" using unat_byte_less [of b] by simp
  have 2: "unat b mod 16 < 16" by simp
  from False show ?thesis
    by (simp add: quoter_def
        unquote_to_bytes_escape [OF hex_digit_not_percent [OF 1] hex_digit_not_percent [OF 2]
          hextobyte_hex])
qed

lemma unquote_to_bytes_quote_from_bytes:
  "unquote_to_bytes (map of_nat (quote_from_bytes bs (lit ''/''))) = bs"
proof (induction bs)
  case Nil
  show ?case by (simp add: quote_from_bytes_def unquote_to_bytes_def)
next
  case (Cons b bs)
  then show ?case
    using unquote_to_bytes_quoter [of b "map of_nat (quote_from_bytes bs (lit ''/''))"]
    by (simp add: quote_from_bytes_def)
qed

lemma quoter_ascii: "c \<in> set (quoter (lit ''/'') b) \<Longrightarrow> c < 128"
proof (cases "unat b \<in> set (always_safe @ lit ''/'')")
  case True
  assume "c \<in> set (quoter (lit ''/'') b)"
  with True have "c = unat b" by (simp add: quoter_def)
  with True safe_chars show ?thesis by blast
next
  case False
  assume "c \<in> set (quoter (lit ''/'') b)"
  with False have "c = 37 \<or> c = hex_digit (unat b div 16) \<or> c = hex_digit (unat b mod 16)"
    by (simp add: quoter_def)
  moreover have "unat b div 16 < 16" using unat_byte_less [of b] by simp
  ultimately show ?thesis
    by (auto simp add: hex_digit_def)
qed

lemma quote_from_bytes_ascii: "c \<in> set (quote_from_bytes bs (lit ''/'')) \<Longrightarrow> c < 128"
  by (auto simp add: quote_from_bytes_def quoter_ascii)

lemma quote_from_bytes_no_percent:
  "37 \<notin> set (quote_from_bytes bs (lit ''/'')) \<Longrightarrow>
   quote_from_bytes bs (lit ''/'') = map unat bs \<and> (\<forall>b \<in> set bs. unat b < 128)"
proof (induction bs)
  case Nil
  show ?case by (simp add: quote_from_bytes_def)
next
  case (Cons b bs)
  from Cons.prems have p: "37 \<notin> set (quoter (lit ''/'') b)"
    and r: "37 \<notin> set (quote_from_bytes bs (lit ''/''))"
    by (simp_all add: quote_from_bytes_def)
  from p have s: "unat b \<in> set (always_safe @ lit ''/'')"
    by (auto simp add: quoter_def split: if_splits)
  then have "quoter (lit ''/'') b = [unat b]" by (simp add: quoter_def)
  moreover from s have "unat b < 128" using safe_chars by blast
  ultimately show ?case
    using Cons.IH [OF r] by (simp add: quote_from_bytes_def)
qed


subsection \<open>Reading UTF-8 undoes writing it\<close>

lemma split_4096: "(c::nat) div 4096 * 4096 + c div 64 mod 64 * 64 + c mod 64 = c"
proof -
  have "c mod (64 * 64) = 64 * (c div 64 mod 64) + c mod 64"
    by (rule mod_mult2_eq)
  then have "c mod 4096 = c div 64 mod 64 * 64 + c mod 64"
    by simp
  moreover have "c div 4096 * 4096 + c mod 4096 = c"
    by (rule div_mult_mod_eq)
  ultimately show ?thesis by simp
qed

lemma split_262144:
  "(c::nat) div 262144 * 262144 + c div 4096 mod 64 * 4096 + c div 64 mod 64 * 64 + c mod 64 = c"
proof -
  have "c mod (4096 * 64) = 4096 * (c div 4096 mod 64) + c mod 4096"
    by (rule mod_mult2_eq)
  then have "c mod 262144 = c div 4096 mod 64 * 4096 + c mod 4096"
    by simp
  moreover have "c mod (64 * 64) = 64 * (c div 64 mod 64) + c mod 64"
    by (rule mod_mult2_eq)
  then have "c mod 4096 = c div 64 mod 64 * 64 + c mod 64"
    by simp
  moreover have "c div 262144 * 262144 + c mod 262144 = c"
    by (rule div_mult_mod_eq)
  ultimately show ?thesis by simp
qed

lemma utf8_decode_encode_char:
  assumes "utf8_encode_char c = Some cs" and "c < 0x110000"
  shows "utf8_decode (cs @ rest) = map_option ((#) c) (utf8_decode rest)"
proof -
  consider (one) "c < 0x80" | (two) "0x80 \<le> c" "c < 0x800"
    | (three) "0x800 \<le> c" "c < 0x10000" | (four) "0x10000 \<le> c"
    by linarith
  then show ?thesis
  proof cases
    case one
    define b0 :: byte where "b0 = of_nat c"
    from one assms(1) have cs: "cs = [b0]"
      by (simp add: utf8_encode_char_def b0_def)
    from one have 0: "unat b0 = c"
      unfolding b0_def by (intro unat_byte_of_nat) simp
    from one show ?thesis
      unfolding cs by (simp add: 0)
  next
    case two
    define b0 :: byte where "b0 = of_nat (0xC0 + c div 64)"
    define b1 :: byte where "b1 = of_nat (0x80 + c mod 64)"
    from two assms(1) have cs: "cs = [b0, b1]"
      by (simp add: utf8_encode_char_def b0_def b1_def)
    from two have 0: "unat b0 = 0xC0 + c div 64"
      unfolding b0_def by (intro unat_byte_of_nat) simp
    have 1: "unat b1 = 0x80 + c mod 64"
      unfolding b1_def by (intro unat_byte_of_nat) simp
    from two have r: "2 \<le> c div 64" "c div 64 < 32" by simp_all
    show ?thesis
      unfolding cs using r
      by (simp add: 0 1 is_continuation_def)
  next
    case three
    define b0 :: byte where "b0 = of_nat (0xE0 + c div 4096)"
    define b1 :: byte where "b1 = of_nat (0x80 + c div 64 mod 64)"
    define b2 :: byte where "b2 = of_nat (0x80 + c mod 64)"
    from three assms(1) have ns: "\<not> (0xD800 \<le> c \<and> c < 0xE000)"
      and cs: "cs = [b0, b1, b2]"
      by (auto simp add: utf8_encode_char_def b0_def b1_def b2_def split: if_splits)
    from three have 0: "unat b0 = 0xE0 + c div 4096"
      unfolding b0_def by (intro unat_byte_of_nat) simp
    have 1: "unat b1 = 0x80 + c div 64 mod 64"
      unfolding b1_def by (intro unat_byte_of_nat) simp
    have 2: "unat b2 = 0x80 + c mod 64"
      unfolding b2_def by (intro unat_byte_of_nat) simp
    from three have r: "c div 4096 < 16" by simp
    note v = split_4096 [of c]
    show ?thesis
      unfolding cs using three ns r
      by (simp add: 0 1 2 is_continuation_def v)
  next
    case four
    define b0 :: byte where "b0 = of_nat (0xF0 + c div 262144)"
    define b1 :: byte where "b1 = of_nat (0x80 + c div 4096 mod 64)"
    define b2 :: byte where "b2 = of_nat (0x80 + c div 64 mod 64)"
    define b3 :: byte where "b3 = of_nat (0x80 + c mod 64)"
    from four assms(1) have cs: "cs = [b0, b1, b2, b3]"
      by (simp add: utf8_encode_char_def b0_def b1_def b2_def b3_def)
    from assms(2) have 0: "unat b0 = 0xF0 + c div 262144"
      unfolding b0_def by (intro unat_byte_of_nat) simp
    have 1: "unat b1 = 0x80 + c div 4096 mod 64"
      unfolding b1_def by (intro unat_byte_of_nat) simp
    have 2: "unat b2 = 0x80 + c div 64 mod 64"
      unfolding b2_def by (intro unat_byte_of_nat) simp
    have 3: "unat b3 = 0x80 + c mod 64"
      unfolding b3_def by (intro unat_byte_of_nat) simp
    from assms(2) have r: "c div 262144 < 5" by simp
    note v = split_262144 [of c]
    show ?thesis
      unfolding cs using four assms(2) r
      by (simp add: 0 1 2 3 is_continuation_def v)
  qed
qed

lemma utf8_decode_encode:
  "utf8_encode s = Inr bs \<Longrightarrow> codepoints s \<Longrightarrow> utf8_decode bs = Some s"
proof (induction s arbitrary: bs)
  case Nil
  then show ?case by simp
next
  case (Cons c s)
  from Cons.prems(1) obtain cs rest where c: "utf8_encode_char c = Some cs"
    and r: "utf8_encode s = Inr rest" and b: "bs = cs @ rest"
    by (auto split: option.splits sum.splits)
  from Cons.prems(2) have "c < 0x110000" and "codepoints s"
    by (simp_all add: codepoints_def)
  with c r b Cons.IH [of rest] show ?case
    by (simp add: utf8_decode_encode_char del: utf8_decode.simps)
qed

lemma utf8_decode_ascii: "\<forall>b \<in> set bs. unat b < 128 \<Longrightarrow> utf8_decode bs = Some (map unat bs)"
  by (induction bs) simp_all

lemma utf8_encode_encodable: "encodable s \<Longrightarrow> \<exists>bs. utf8_encode s = Inr bs"
  by (induction s) (auto simp add: encodable_def utf8_encode_char_def)


subsection \<open>The item name in the path\<close>

lemma unquote_parts_ascii:
  "\<forall>c \<in> set q. c < 128 \<Longrightarrow>
   unquote_parts q = utf8_decode (unquote_to_bytes (map of_nat q))"
proof (cases q)
  case Nil
  then show ?thesis by (simp add: unquote_to_bytes_def)
next
  case (Cons c cs)
  assume a: "\<forall>c \<in> set q. c < 128"
  with Cons have t: "takeWhile (\<lambda>x. x < 128) (c # cs) = c # cs"
    and d: "dropWhile (\<lambda>x. x < 128) cs = []"
    by simp_all
  from a Cons have "c < 128" by simp
  then have "unquote_parts (c # cs)
      = (case utf8_decode (unquote_to_bytes (map of_nat (c # cs))) of
           None \<Rightarrow> None | Some t \<Rightarrow> Some t)"
    by (simp only: unquote_parts.simps t d if_True option.map list.simps append_Nil2
        split: option.split)
  with Cons show ?thesis by (simp split: option.split)
qed

lemma unquote_quote:
  assumes "quote s (lit ''/'') = Inr q" and "codepoints s"
  shows "unquote q = Some s"
proof (cases "s = []")
  case True
  with assms(1) show ?thesis by (simp add: quote_def unquote_def)
next
  case False
  with assms(1) obtain bs where e: "utf8_encode s = Inr bs"
    and q: "q = quote_from_bytes bs (lit ''/'')"
    by (auto simp add: quote_def split: sum.splits)
  from e assms(2) have d: "utf8_decode bs = Some s"
    by (rule utf8_decode_encode)
  show ?thesis
  proof (cases "37 \<in> set q")
    case True
    have "\<forall>c \<in> set q. c < 128"
      using quote_from_bytes_ascii q by blast
    then have "unquote_parts q = utf8_decode (unquote_to_bytes (map of_nat q))"
      by (rule unquote_parts_ascii)
    with True d show ?thesis
      by (simp add: unquote_def q unquote_to_bytes_quote_from_bytes)
  next
    case False
    then have "q = map unat bs \<and> (\<forall>b \<in> set bs. unat b < 128)"
      unfolding q by (rule quote_from_bytes_no_percent)
    with d have "q = s"
      by (simp add: utf8_decode_ascii)
    with False show ?thesis by (simp add: unquote_def)
  qed
qed

lemma quote_encodable: "encodable s \<Longrightarrow> \<exists>q. quote s (lit ''/'') = Inr q"
  using utf8_encode_encodable [of s] by (auto simp add: quote_def)

text \<open>
  Claim C5, as the code has it. For every item name that has a UTF-8 form (no surrogate
  code point), reserved characters included: \<^verbatim>\<open>get_item_price\<close> requests the path
  \<open>/steam/item/\<close> followed by the percent-encoding of the name, and percent-decoding
  that segment gives the name back.
\<close>
theorem item_name_roundtrip:
  assumes "codepoints item_name" and "encodable item_name"
  shows "\<exists>encoded_name.
           quote item_name (lit ''/'') = Inr encoded_name \<and>
           unquote encoded_name = Some item_name \<and>
           (\<exists>rq. sent (snd (get_item_price net item_name app_id s)) = sent s @ [rq] \<and>
                 url rq = api_base (self s) @ lit ''/steam/item/'' @ encoded_name)"
proof -
  from assms(2) obtain q where q: "quote item_name (lit ''/'') = Inr q"
    using quote_encodable by blast
  from q assms(1) have "unquote q = Some item_name"
    by (rule unquote_quote)
  with q get_item_price_sent [OF q, of net app_id s] show ?thesis
    by simp
qed

text \<open>The theorem of C5 at the item name of the demonstration.\<close>
theorem item_name_roundtrip_witness:
  "codepoints redline \<and> encodable redline \<and>
   quote redline (lit ''/'') = Inr (lit ''AK-47%20%7C%20Redline%20%28Field-Tested%29'') \<and>
   unquote (lit ''AK-47%20%7C%20Redline%20%28Field-Tested%29'') = Some redline \<and>
   (\<exists>rq. sent (snd (get_item_price ok_net redline None fresh)) = sent fresh @ [rq] \<and>
         url rq = api_base (self fresh) @ lit ''/steam/item/''
                    @ lit ''AK-47%20%7C%20Redline%20%28Field-Tested%29'')"
proof -
  have c: "codepoints redline" and e: "encodable redline"
    by (simp_all add: codepoints_def encodable_def redline_def lit_def)
  from item_name_roundtrip [OF c e, of ok_net None fresh] quote_redline c e
  show ?thesis by auto
qed

text \<open>
  Claim C5 as stated speaks of every string. The one-character string \<open>U+D800\<close>, a
  lone surrogate, has no percent-encoding: \<^verbatim>\<open>quote\<close> raises
  \<^verbatim>\<open>UnicodeEncodeError\<close>, which leaves \<^verbatim>\<open>get_item_price\<close> before any request is made.
\<close>
theorem lone_surrogate_counterexample:
  "codepoints [0xD800] \<and>
   quote [0xD800] (lit ''/'') = Inl (Exc UnicodeEncodeError (lit ''surrogates not allowed'')) \<and>
   get_item_price ok_net [0xD800] None fresh
     = (Inl (Exc UnicodeEncodeError (lit ''surrogates not allowed'')), fresh) \<and>
   sent fresh = []"
  by (simp add: codepoints_def quote_def utf8_encode_char_def get_item_price_def fresh_def)

end
